theory Spec2Isabelle
  imports Complex_Main "HOL-Library.AList"
begin

section \<open>The products API: three revisions of the request handlers\<close>

text \<open>
  The repository holds three revisions of one module of AWS Lambda handlers over a
  DynamoDB table \<^verbatim>\<open>ProductsTable\<close>:
  \<^item> \<^verbatim>\<open>src/handlers.ts\<close>: \<^verbatim>\<open>createProduct\<close> and \<^verbatim>\<open>getProduct\<close>, no error handling;
  \<^item> \<^verbatim>\<open>part_001\<close>: all five handlers, \<^verbatim>\<open>HttpError\<close> and \<^verbatim>\<open>handleError\<close>, no validation;
  \<^item> \<^verbatim>\<open>part_000\<close>: all five handlers, with the yup schema and the full \<^verbatim>\<open>handleError\<close>.

  Each handler is embedded as a function from the event and the state of the world to a
  completion (a returned response, or a thrown error that leaves the handler) and the
  new state of the world. The \<^verbatim>\<open>console.log\<close> of Create writes to the log only and is
  left out.
\<close>

subsection \<open>JavaScript values as the handlers see them\<close>

text \<open>
  What \<^verbatim>\<open>JSON.parse\<close> produces. An object is the list of its own properties in
  property order. Numbers are never computed with by the handlers; finite numbers are
  taken as rationals.
\<close>

datatype json =
    JNull
  | JBool bool
  | JNum rat
  | JStr string
  | JArr "json list"
  | JObj "(string \<times> json) list"

type_synonym item = "(string \<times> json) list"

text \<open>
  The parts of the platform that are not code of the repository are parameters:
  \<^item> \<open>JSON_parse\<close>: the result of \<^verbatim>\<open>JSON.parse\<close> on a text, \<open>Inl m\<close> when it throws a
    \<^verbatim>\<open>SyntaxError\<close> with message \<open>m\<close>;
  \<^item> \<open>Number_toString\<close>: how \<^verbatim>\<open>JSON.stringify\<close> renders a number;
  \<^item> \<open>yup_validate\<close>: yup's \<^verbatim>\<open>schema.validate(value, { abortEarly })\<close> for a schema of
    required fields: \<open>Inl errs\<close> when it rejects with a \<^verbatim>\<open>ValidationError\<close> whose
    \<^verbatim>\<open>errors\<close> are \<open>errs\<close>, \<open>Inr v\<close> when it resolves with \<open>v\<close>.
\<close>

datatype yup_type = yup_string | yup_number | yup_boolean

record runtime =
  JSON_parse :: "string \<Rightarrow> string + json"
  Number_toString :: "rat \<Rightarrow> string"
  yup_validate :: "(string \<times> yup_type) list \<Rightarrow> json \<Rightarrow> bool \<Rightarrow> string list + json"

subsection \<open>\<^verbatim>\<open>JSON.stringify\<close>\<close>

definition hex_digit :: "nat \<Rightarrow> char" where
  "hex_digit n = ''0123456789abcdef'' ! (n mod 16)"

text \<open>ECMAScript's QuoteJSONString, on 8-bit characters.\<close>

definition escape_char :: "char \<Rightarrow> string" where
  "escape_char c =
     (if c = CHR 0x08 then [CHR 0x5C, CHR ''b'']
      else if c = CHR 0x09 then [CHR 0x5C, CHR ''t'']
      else if c = CHR 0x0A then [CHR 0x5C, CHR ''n'']
      else if c = CHR 0x0C then [CHR 0x5C, CHR ''f'']
      else if c = CHR 0x0D then [CHR 0x5C, CHR ''r'']
      else if c = CHR 0x22 then [CHR 0x5C, CHR 0x22]
      else if c = CHR 0x5C then [CHR 0x5C, CHR 0x5C]
      else if (of_char c :: nat) < 32
        then [CHR 0x5C, CHR ''u'', CHR ''0'', CHR ''0'',
              hex_digit (of_char c div 16), hex_digit (of_char c)]
      else [c])"

definition QuoteJSONString :: "string \<Rightarrow> string" where
  "QuoteJSONString s = [CHR 0x22] @ concat (map escape_char s) @ [CHR 0x22]"

fun join :: "string \<Rightarrow> string list \<Rightarrow> string" where
  "join sep [] = []"
| "join sep [x] = x"
| "join sep (x # y # ys) = x @ sep @ join sep (y # ys)"

primrec JSON_stringify :: "runtime \<Rightarrow> json \<Rightarrow> string" where
  "JSON_stringify env JNull = ''null''"
| "JSON_stringify env (JBool b) = (if b then ''true'' else ''false'')"
| "JSON_stringify env (JNum x) = Number_toString env x"
| "JSON_stringify env (JStr s) = QuoteJSONString s"
| "JSON_stringify env (JArr xs) =
     ''['' @ join '','' (map (JSON_stringify env) xs) @ '']''"
| "JSON_stringify env (JObj ps) =
     ''{'' @ join '','' (map (\<lambda>(k, v). QuoteJSONString k @ '':'' @ v)
                          (map (map_prod id (JSON_stringify env)) ps)) @ ''}''"

subsection \<open>Object spread\<close>

fun decimal :: "nat \<Rightarrow> string" where
  "decimal n =
     (if n < 10 then [''0123456789'' ! n]
      else decimal (n div 10) @ [''0123456789'' ! (n mod 10)])"

text \<open>
  The own enumerable properties \<^verbatim>\<open>{...v}\<close> copies: those of an object, the indices
  of an array or of a string, none of \<^verbatim>\<open>null\<close>, a boolean or a number.
\<close>

fun own_props :: "json \<Rightarrow> item" where
  "own_props (JObj ps) = ps"
| "own_props (JArr xs) = zip (map decimal [0..<length xs]) xs"
| "own_props (JStr s) = zip (map decimal [0..<length s]) (map (\<lambda>c. JStr [c]) s)"
| "own_props _ = []"

text \<open>
  \<^verbatim>\<open>{ ...reqBody, productId: id }\<close>: a \<^verbatim>\<open>productId\<close> of the body keeps its place
  and takes the new value, otherwise the property is added last.
\<close>

definition spread_productId :: "json \<Rightarrow> string \<Rightarrow> item" where
  "spread_productId reqBody pid = AList.update ''productId'' (JStr pid) (own_props reqBody)"

text \<open>
  The same with \<^verbatim>\<open>id\<close> read from the path (\<^verbatim>\<open>event?.pathParameters?.id as string\<close>),
  which is \<^verbatim>\<open>undefined\<close> when the event has none: a property whose value is
  \<^verbatim>\<open>undefined\<close> is no property, for \<^verbatim>\<open>JSON.stringify\<close> and for the document client
  alike.
\<close>

definition spread_path_id :: "json \<Rightarrow> string option \<Rightarrow> item" where
  "spread_path_id reqBody pid =
     (case pid of
        Some s \<Rightarrow> spread_productId reqBody s
      | None \<Rightarrow> AList.delete ''productId'' (own_props reqBody))"

subsection \<open>The world: the table and the sources of nondeterminism\<close>

text \<open>
  \<open>ProductsTable\<close> is the DynamoDB table, keyed by \<^verbatim>\<open>productId\<close>; the store
  gives back the item it was given. \<open>uuid_source\<close> is what the successive calls of
  \<^verbatim>\<open>v4()\<close> return. A call of the document client fails (an error of the store:
  network, throttling, permissions) when \<open>store_outage\<close> says so for that call; a
  failed call changes nothing in the table.
\<close>

record world =
  ProductsTable :: "(string \<times> item) list"
  uuid_source :: "nat \<Rightarrow> string"
  uuid_calls :: nat
  store_outage :: "nat \<Rightarrow> bool"
  store_calls :: nat

datatype js_error =
    ValidationError "string list"
  | SyntaxError string
  | HttpError int string
  | AWSError

datatype 'a completion = Returns 'a | Throws js_error

type_synonym 'a promise = "world \<Rightarrow> 'a completion \<times> world"

definition resolve :: "'a \<Rightarrow> 'a promise" where
  "resolve x w = (Returns x, w)"

definition reject :: "js_error \<Rightarrow> 'a promise" where
  "reject e w = (Throws e, w)"

definition await :: "'a promise \<Rightarrow> ('a \<Rightarrow> 'b promise) \<Rightarrow> 'b promise" where
  "await m k w =
     (case m w of
        (Returns x, w') \<Rightarrow> k x w'
      | (Throws e, w') \<Rightarrow> (Throws e, w'))"

definition try_catch :: "'a promise \<Rightarrow> (js_error \<Rightarrow> 'a promise) \<Rightarrow> 'a promise" where
  "try_catch m h w =
     (case m w of
        (Returns x, w') \<Rightarrow> (Returns x, w')
      | (Throws e, w') \<Rightarrow> h e w')"

definition v4 :: "string promise" where
  "v4 w = (Returns (uuid_source w (uuid_calls w)), w\<lparr>uuid_calls := Suc (uuid_calls w)\<rparr>)"

definition store_call :: "'a promise \<Rightarrow> 'a promise" where
  "store_call op w =
     (let w' = w\<lparr>store_calls := Suc (store_calls w)\<rparr>
      in if store_outage w (store_calls w) then (Throws AWSError, w') else op w')"

text \<open>
  The key of a request is the \<^verbatim>\<open>productId\<close> it carries; the store rejects a
  request that carries none (\<^verbatim>\<open>undefined\<close>, or an item whose \<^verbatim>\<open>productId\<close> is
  not a string).
\<close>

definition docClient_get :: "string option \<Rightarrow> item option promise" where
  "docClient_get key =
     store_call (\<lambda>w. case key of
        None \<Rightarrow> (Throws AWSError, w)
      | Some k \<Rightarrow> (Returns (map_of (ProductsTable w) k), w))"

definition docClient_put :: "item \<Rightarrow> unit promise" where
  "docClient_put Item =
     store_call (\<lambda>w. case map_of Item ''productId'' of
        Some (JStr k) \<Rightarrow>
          (Returns (), w\<lparr>ProductsTable := AList.update k Item (ProductsTable w)\<rparr>)
      | _ \<Rightarrow> (Throws AWSError, w))"

definition docClient_delete :: "string option \<Rightarrow> unit promise" where
  "docClient_delete key =
     store_call (\<lambda>w. case key of
        None \<Rightarrow> (Throws AWSError, w)
      | Some k \<Rightarrow> (Returns (), w\<lparr>ProductsTable := AList.delete k (ProductsTable w)\<rparr>))"

definition docClient_scan :: "item list promise" where
  "docClient_scan = store_call (\<lambda>w. (Returns (map snd (ProductsTable w)), w))"

subsection \<open>Events and responses\<close>

record event =
  event_body :: "string option"
  pathParameters :: "(string \<times> string) list option"

record response =
  statusCode :: int
  headers :: "(string \<times> string) list option"
  body :: string

definition content_type_json :: "(string \<times> string) list" where
  "content_type_json = [(''content-type'', ''application/json'')]"

text \<open>\<^verbatim>\<open>event?.pathParameters?.id\<close>\<close>

definition path_id :: "event \<Rightarrow> string option" where
  "path_id ev = (case pathParameters ev of None \<Rightarrow> None | Some ps \<Rightarrow> map_of ps ''id'')"

text \<open>
  \<^verbatim>\<open>JSON.parse(event?.body as string)\<close>: the argument is converted to a string first,
  so a \<^verbatim>\<open>null\<close> body is the text \<^verbatim>\<open>null\<close>.
\<close>

definition request_text :: "event \<Rightarrow> string" where
  "request_text ev = (case event_body ev of None \<Rightarrow> ''null'' | Some s \<Rightarrow> s)"

definition parse_body :: "runtime \<Rightarrow> event \<Rightarrow> json promise" where
  "parse_body env ev =
     (case JSON_parse env (request_text ev) of
        Inl m \<Rightarrow> reject (SyntaxError m)
      | Inr v \<Rightarrow> resolve v)"

definition not_found :: json where
  "not_found = JObj [(''error'', JStr ''Product not found'')]"

subsection \<open>\<^verbatim>\<open>src/handlers.ts\<close>\<close>

definition handlers_createProduct :: "runtime \<Rightarrow> event \<Rightarrow> response promise" where
  "handlers_createProduct env ev =
     await (parse_body env ev) (\<lambda>reqBody.
     await v4 (\<lambda>id1.
     let product = spread_productId reqBody id1 in
     await v4 (\<lambda>id2.
     await (docClient_put (spread_productId reqBody id2)) (\<lambda>_.
     resolve \<lparr>statusCode = 200, headers = None,
              body = JSON_stringify env (JObj product)\<rparr>))))"

definition handlers_getProduct :: "runtime \<Rightarrow> event \<Rightarrow> response promise" where
  "handlers_getProduct env ev =
     await (docClient_get (path_id ev)) (\<lambda>output.
     case output of
       None \<Rightarrow> resolve \<lparr>statusCode = 404, headers = None,
                         body = JSON_stringify env not_found\<rparr>
     | Some Item \<Rightarrow> resolve \<lparr>statusCode = 200, headers = None,
                              body = JSON_stringify env (JObj Item)\<rparr>)"

subsection \<open>\<^verbatim>\<open>part_001\<close>\<close>

text \<open>\<^verbatim>\<open>new HttpError(status, body)\<close>: the message is the JSON text of the body.\<close>

definition new_HttpError :: "runtime \<Rightarrow> int \<Rightarrow> json \<Rightarrow> js_error" where
  "new_HttpError env statusCody b = HttpError statusCody (JSON_stringify env b)"

definition fetchProductById :: "runtime \<Rightarrow> string option \<Rightarrow> item promise" where
  "fetchProductById env pid =
     await (docClient_get pid) (\<lambda>output.
     case output of
       None \<Rightarrow> reject (new_HttpError env 404 not_found)
     | Some Item \<Rightarrow> resolve Item)"

fun part001_handleError :: "js_error \<Rightarrow> response promise" where
  "part001_handleError (HttpError st msg) =
     resolve \<lparr>statusCode = st, headers = Some content_type_json, body = msg\<rparr>"
| "part001_handleError e = reject e"

definition part001_createProduct :: "runtime \<Rightarrow> event \<Rightarrow> response promise" where
  "part001_createProduct env ev =
     await (parse_body env ev) (\<lambda>reqBody.
     await v4 (\<lambda>pid.
     let product = spread_productId reqBody pid in
     await (docClient_put product) (\<lambda>_.
     resolve \<lparr>statusCode = 200, headers = Some content_type_json,
              body = JSON_stringify env (JObj product)\<rparr>)))"

definition part001_getProduct :: "runtime \<Rightarrow> event \<Rightarrow> response promise" where
  "part001_getProduct env ev =
     try_catch
       (await (fetchProductById env (path_id ev)) (\<lambda>product.
        resolve \<lparr>statusCode = 200, headers = Some content_type_json,
                 body = JSON_stringify env (JObj product)\<rparr>))
       part001_handleError"

definition part001_updateProduct :: "runtime \<Rightarrow> event \<Rightarrow> response promise" where
  "part001_updateProduct env ev =
     try_catch
       (await (fetchProductById env (path_id ev)) (\<lambda>_.
        await (parse_body env ev) (\<lambda>reqBody.
        let product = spread_path_id reqBody (path_id ev) in
        await (docClient_put product) (\<lambda>_.
        resolve \<lparr>statusCode = 200, headers = Some content_type_json,
                 body = JSON_stringify env (JObj product)\<rparr>))))
       part001_handleError"

definition part001_deleteProduct :: "runtime \<Rightarrow> event \<Rightarrow> response promise" where
  "part001_deleteProduct env ev =
     try_catch
       (await (fetchProductById env (path_id ev)) (\<lambda>_.
        await (docClient_delete (path_id ev)) (\<lambda>_.
        resolve \<lparr>statusCode = 204, headers = None, body = ''''\<rparr>)))
       part001_handleError"

definition part001_listProduct :: "runtime \<Rightarrow> event \<Rightarrow> response promise" where
  "part001_listProduct env ev =
     await docClient_scan (\<lambda>Items.
     resolve \<lparr>statusCode = 200, headers = Some content_type_json,
              body = JSON_stringify env (JArr (map JObj Items))\<rparr>)"

subsection \<open>\<^verbatim>\<open>part_000\<close>\<close>

text \<open>
  The schema of \<^verbatim>\<open>part_000\<close>: \<^verbatim>\<open>yup.object().shape({ name: yup.string().required(), ... })\<close>,
  every field required.
\<close>

definition schema :: "(string \<times> yup_type) list" where
  "schema =
     [(''name'', yup_string),
      (''description'', yup_string),
      (''price'', yup_number),
      (''available'', yup_boolean)]"

text \<open>\<^verbatim>\<open>await schema.validate(reqBody, { abortEarly: false })\<close>; the value it resolves with is dropped.\<close>

definition schema_validate :: "runtime \<Rightarrow> json \<Rightarrow> unit promise" where
  "schema_validate env reqBody =
     (case yup_validate env schema reqBody False of
        Inl errs \<Rightarrow> reject (ValidationError errs)
      | Inr _ \<Rightarrow> resolve ())"

fun part000_handleError :: "runtime \<Rightarrow> js_error \<Rightarrow> response promise" where
  "part000_handleError env (ValidationError errs) =
     resolve \<lparr>statusCode = 400, headers = Some content_type_json,
              body = JSON_stringify env (JObj [(''errors'', JArr (map JStr errs))])\<rparr>"
| "part000_handleError env (SyntaxError m) =
     resolve \<lparr>statusCode = 400, headers = Some content_type_json,
              body = JSON_stringify env
                (JObj [(''error'', JStr (''Invalid request body format: '' @ m))])\<rparr>"
| "part000_handleError env (HttpError st msg) =
     resolve \<lparr>statusCode = st, headers = Some content_type_json, body = msg\<rparr>"
| "part000_handleError env e = reject e"

definition part000_createProduct :: "runtime \<Rightarrow> event \<Rightarrow> response promise" where
  "part000_createProduct env ev =
     try_catch
       (await (parse_body env ev) (\<lambda>reqBody.
        await (schema_validate env reqBody) (\<lambda>_.
        await v4 (\<lambda>pid.
        let product = spread_productId reqBody pid in
        await (docClient_put product) (\<lambda>_.
        resolve \<lparr>statusCode = 200, headers = Some content_type_json,
                 body = JSON_stringify env (JObj product)\<rparr>)))))
       (part000_handleError env)"

definition part000_getProduct :: "runtime \<Rightarrow> event \<Rightarrow> response promise" where
  "part000_getProduct env ev =
     try_catch
       (await (fetchProductById env (path_id ev)) (\<lambda>product.
        resolve \<lparr>statusCode = 200, headers = Some content_type_json,
                 body = JSON_stringify env (JObj product)\<rparr>))
       (part000_handleError env)"

definition part000_updateProduct :: "runtime \<Rightarrow> event \<Rightarrow> response promise" where
  "part000_updateProduct env ev =
     try_catch
       (await (fetchProductById env (path_id ev)) (\<lambda>_.
        await (parse_body env ev) (\<lambda>reqBody.
        await (schema_validate env reqBody) (\<lambda>_.
        let product = spread_path_id reqBody (path_id ev) in
        await (docClient_put product) (\<lambda>_.
        resolve \<lparr>statusCode = 200, headers = Some content_type_json,
                 body = JSON_stringify env (JObj product)\<rparr>)))))
       (part000_handleError env)"

definition part000_deleteProduct :: "runtime \<Rightarrow> event \<Rightarrow> response promise" where
  "part000_deleteProduct env ev =
     try_catch
       (await (fetchProductById env (path_id ev)) (\<lambda>_.
        await (docClient_delete (path_id ev)) (\<lambda>_.
        resolve \<lparr>statusCode = 204, headers = None, body = ''''\<rparr>)))
       (part000_handleError env)"

definition part000_listProduct :: "runtime \<Rightarrow> event \<Rightarrow> response promise" where
  "part000_listProduct env ev =
     await docClient_scan (\<lambda>Items.
     resolve \<lparr>statusCode = 200, headers = Some content_type_json,
              body = JSON_stringify env (JArr (map JObj Items))\<rparr>)"

subsection \<open>A concrete platform for the examples\<close>

text \<open>
  Modelled from the spec: the Validator of section 4.1 (yup itself is a library, not
  part of the sources). It checks presence and type of every field of the schema and
  reports the name of each field that is missing or of the wrong type, all of them
  unless \<open>abortEarly\<close>.
\<close>

definition has_type :: "yup_type \<Rightarrow> json \<Rightarrow> bool" where
  "has_type t x =
     (case (t, x) of
        (yup_string, JStr _) \<Rightarrow> True
      | (yup_number, JNum _) \<Rightarrow> True
      | (yup_boolean, JBool _) \<Rightarrow> True
      | _ \<Rightarrow> False)"

definition violated :: "json \<Rightarrow> string \<times> yup_type \<Rightarrow> bool" where
  "violated v f =
     (case v of
        JObj ps \<Rightarrow> (case map_of ps (fst f) of None \<Rightarrow> True | Some x \<Rightarrow> \<not> has_type (snd f) x)
      | _ \<Rightarrow> True)"

definition Validator :: "(string \<times> yup_type) list \<Rightarrow> json \<Rightarrow> bool \<Rightarrow> string list + json" where
  "Validator shape v abortEarly =
     (let errs = map fst (filter (violated v) shape)
      in if errs = [] then Inr v
         else Inl (if abortEarly then take 1 errs else errs))"

text \<open>
  A parser that knows the request texts of the examples, and rejects every other text
  with one diagnostic.
\<close>

definition pen :: item where
  "pen = [(''name'', JStr ''pen''), (''description'', JStr ''blue''),
          (''price'', JNum 3), (''available'', JBool True)]"

definition pen_text :: string where
  \<open>pen_text = ''{"name":"pen","description":"blue","price":3,"available":true}''\<close>

definition ink :: item where
  "ink = [(''productId'', JStr ''mine''), (''name'', JStr ''ink''),
          (''description'', JStr ''black''), (''price'', JNum 7),
          (''available'', JBool False), (''colour'', JStr ''jet'')]"

definition ink_text :: string where
  \<open>ink_text = ''{"productId":"mine","name":"ink","description":"black","price":7,"available":false,"colour":"jet"}''\<close>

definition demo_parse :: "string \<Rightarrow> string + json" where
  "demo_parse s =
     (if s = pen_text then Inr (JObj pen)
      else if s = ink_text then Inr (JObj ink)
      else if s = ''{}'' then Inr (JObj [])
      else if s = ''null'' then Inr JNull
      else Inl ''Unexpected token'')"

definition demo_runtime :: runtime where
  "demo_runtime =
     \<lparr>JSON_parse = demo_parse,
      Number_toString = (\<lambda>x. decimal (nat \<lfloor>x\<rfloor>)),
      yup_validate = Validator\<rparr>"

text \<open>A world with an empty table, ids \<^verbatim>\<open>uuid-0\<close>, \<^verbatim>\<open>uuid-1\<close>, ... and a store that answers.\<close>

definition empty_world :: world where
  "empty_world =
     \<lparr>ProductsTable = [],
      uuid_source = (\<lambda>n. ''uuid-'' @ decimal n),
      uuid_calls = 0,
      store_outage = (\<lambda>n. False),
      store_calls = 0\<rparr>"

text \<open>The same world with one product, \<^verbatim>\<open>p1\<close>, in the table.\<close>

definition stocked_world :: world where
  "stocked_world =
     empty_world\<lparr>ProductsTable := [(''p1'', spread_productId (JObj pen) ''p1'')]\<rparr>"

definition request :: "string \<Rightarrow> event" where
  "request text = \<lparr>event_body = Some text, pathParameters = None\<rparr>"

definition request_at :: "string \<Rightarrow> string option \<Rightarrow> event" where
  "request_at k text = \<lparr>event_body = text, pathParameters = Some [(''id'', k)]\<rparr>"




section \<open>Properties of the handlers\<close>

lemmas promise_defs = resolve_def reject_def await_def try_catch_def

lemmas store_defs = store_call_def docClient_get_def docClient_put_def
  docClient_delete_def docClient_scan_def

lemmas demo_defs = demo_runtime_def demo_parse_def pen_text_def ink_text_def
  request_def request_at_def request_text_def path_id_def empty_world_def stocked_world_def
  Validator_def violated_def has_type_def schema_def pen_def ink_def

subsection \<open>The shared steps\<close>

lemma stringify_not_found:
  \<open>JSON_stringify env not_found = ''{"error":"Product not found"}''\<close>
  by (simp add: not_found_def QuoteJSONString_def escape_char_def)

lemma spread_productId_id:
  "map_of (spread_productId reqBody g) ''productId'' = Some (JStr g)"
  by (simp add: spread_productId_def update_conv')

lemma spread_productId_other:
  "key \<noteq> ''productId'' \<Longrightarrow>
   map_of (spread_productId reqBody g) key = map_of (own_props reqBody) key"
  by (simp add: spread_productId_def update_conv')


lemma fetch_found:
  assumes "map_of (ProductsTable w) k = Some old"
    and "\<not> store_outage w (store_calls w)"
  shows "fetchProductById env (Some k) w =
    (Returns old, w\<lparr>store_calls := Suc (store_calls w)\<rparr>)"
  using assms by (simp add: fetchProductById_def store_defs promise_defs Let_def)

lemma fetch_missing:
  assumes "map_of (ProductsTable w) k = None"
    and "\<not> store_outage w (store_calls w)"
  shows "fetchProductById env (Some k) w =
    (Throws (new_HttpError env 404 not_found), w\<lparr>store_calls := Suc (store_calls w)\<rparr>)"
  using assms by (simp add: fetchProductById_def store_defs promise_defs Let_def)

lemma put_stores:
  assumes "map_of Item ''productId'' = Some (JStr k)"
    and "\<not> store_outage w (store_calls w)"
  shows "docClient_put Item w =
    (Returns (), w\<lparr>store_calls := Suc (store_calls w),
                    ProductsTable := AList.update k Item (ProductsTable w)\<rparr>)"
  using assms by (simp add: store_defs Let_def)

subsection \<open>Reads leave the table alone\<close>

text \<open>
  C9. Whatever the event, the platform and the state of the world, and whatever the
  outcome (200, 404, or the store's error leaving the handler), the table after a Get
  or a List is the table before it. This holds for the Get and List of every revision.
\<close>

theorem reads_leave_table:
  "ProductsTable (snd (part000_getProduct env ev w)) = ProductsTable w \<and>
   ProductsTable (snd (part000_listProduct env ev w)) = ProductsTable w \<and>
   ProductsTable (snd (part001_getProduct env ev w)) = ProductsTable w \<and>
   ProductsTable (snd (part001_listProduct env ev w)) = ProductsTable w \<and>
   ProductsTable (snd (handlers_getProduct env ev w)) = ProductsTable w"
  by (simp add: part000_getProduct_def part000_listProduct_def part001_getProduct_def
      part001_listProduct_def handlers_getProduct_def fetchProductById_def new_HttpError_def
      store_defs promise_defs Let_def split: option.splits)

text \<open>
  The three outcomes of a Get are a 200, a 404 and the store's error: the handler of
  \<^verbatim>\<open>part_000\<close> returns or throws nothing else.
\<close>

lemma part000_getProduct_outcomes:
  "(\<exists>r. fst (part000_getProduct env ev w) = Returns r \<and> statusCode r \<in> {200, 404}) \<or>
   fst (part000_getProduct env ev w) = Throws AWSError"
  by (simp add: part000_getProduct_def fetchProductById_def new_HttpError_def
      store_defs promise_defs Let_def split: option.splits)

subsection \<open>Get of an id that has no record\<close>

text \<open>
  C7. When the path id has no record in the table and the store answers, Get returns
  status 404 with the body \<^verbatim>\<open>{"error":"Product not found"}\<close>, in \<^verbatim>\<open>part_000\<close> (through
  \<^verbatim>\<open>fetchProductById\<close> and \<^verbatim>\<open>handleError\<close>) and in \<^verbatim>\<open>src/handlers.ts\<close> alike.
\<close>

theorem get_missing:
  assumes "path_id ev = Some k"
    and "map_of (ProductsTable w) k = None"
    and "\<not> store_outage w (store_calls w)"
  shows \<open>part000_getProduct env ev w =
      (Returns \<lparr>statusCode = 404, headers = Some content_type_json,
                body = ''{"error":"Product not found"}''\<rparr>,
       w\<lparr>store_calls := Suc (store_calls w)\<rparr>) \<and>
    handlers_getProduct env ev w =
      (Returns \<lparr>statusCode = 404, headers = None,
                body = ''{"error":"Product not found"}''\<rparr>,
       w\<lparr>store_calls := Suc (store_calls w)\<rparr>)\<close>
  using assms
  by (simp add: part000_getProduct_def handlers_getProduct_def fetchProductById_def
      new_HttpError_def stringify_not_found store_defs promise_defs Let_def)

theorem get_missing_witness:
  \<open>path_id (request_at ''p2'' None) = Some ''p2'' \<and>
   map_of (ProductsTable stocked_world) ''p2'' = None \<and>
   \<not> store_outage stocked_world (store_calls stocked_world) \<and>
   part000_getProduct demo_runtime (request_at ''p2'' None) stocked_world =
      (Returns \<lparr>statusCode = 404, headers = Some content_type_json,
                body = ''{"error":"Product not found"}''\<rparr>,
       stocked_world\<lparr>store_calls := Suc (store_calls stocked_world)\<rparr>) \<and>
   handlers_getProduct demo_runtime (request_at ''p2'' None) stocked_world =
      (Returns \<lparr>statusCode = 404, headers = None,
                body = ''{"error":"Product not found"}''\<rparr>,
       stocked_world\<lparr>store_calls := Suc (store_calls stocked_world)\<rparr>)\<close>
  using get_missing [of "request_at ''p2'' None" "''p2''" stocked_world demo_runtime]
  by (simp add: demo_defs)

subsection \<open>Update\<close>

text \<open>
  C5. When the path id has no record in the table and the store answers the existence
  check, Update of \<^verbatim>\<open>part_000\<close> returns status 404; the table is unchanged and the
  existence check was the only call of the store (no put).
\<close>

theorem update_missing:
  assumes "path_id ev = Some k"
    and "map_of (ProductsTable w) k = None"
    and "\<not> store_outage w (store_calls w)"
  shows \<open>part000_updateProduct env ev w =
      (Returns \<lparr>statusCode = 404, headers = Some content_type_json,
                body = ''{"error":"Product not found"}''\<rparr>,
       w\<lparr>store_calls := Suc (store_calls w)\<rparr>) \<and>
    ProductsTable (snd (part000_updateProduct env ev w)) = ProductsTable w \<and>
    store_calls (snd (part000_updateProduct env ev w)) = Suc (store_calls w)\<close>
  using assms
  by (simp add: part000_updateProduct_def fetch_missing new_HttpError_def
      stringify_not_found promise_defs)

theorem update_missing_witness:
  \<open>path_id (request_at ''p2'' (Some ink_text)) = Some ''p2'' \<and>
   map_of (ProductsTable stocked_world) ''p2'' = None \<and>
   \<not> store_outage stocked_world (store_calls stocked_world) \<and>
   part000_updateProduct demo_runtime (request_at ''p2'' (Some ink_text)) stocked_world =
      (Returns \<lparr>statusCode = 404, headers = Some content_type_json,
                body = ''{"error":"Product not found"}''\<rparr>,
       stocked_world\<lparr>store_calls := Suc (store_calls stocked_world)\<rparr>) \<and>
   ProductsTable (snd (part000_updateProduct demo_runtime
        (request_at ''p2'' (Some ink_text)) stocked_world)) = ProductsTable stocked_world \<and>
   store_calls (snd (part000_updateProduct demo_runtime
        (request_at ''p2'' (Some ink_text)) stocked_world)) = Suc (store_calls stocked_world)\<close>
  using update_missing [of "request_at ''p2'' (Some ink_text)" "''p2''" stocked_world demo_runtime]
  by (simp add: demo_defs)

text \<open>
  C6. When the path id has a record, the body parses to \<open>reqBody\<close>, the schema accepts
  it (the check of \<^verbatim>\<open>part_000\<close>; \<^verbatim>\<open>part_001\<close> has none) and the store answers, Update
  returns 200 and stores under the path id the record \<open>product\<close> made of the body's own
  properties with \<^verbatim>\<open>productId\<close> set to the path id: its name, description, price and
  available are the body's, its \<^verbatim>\<open>productId\<close> is the path id whatever the body had, and
  a Get of that id afterwards returns 200 with that very record.
\<close>

theorem update_existing:
  assumes "path_id ev = Some k"
    and "map_of (ProductsTable w) k = Some old"
    and "JSON_parse env (request_text ev) = Inr reqBody"
    and "yup_validate env schema reqBody False = Inr v"
    and "\<not> store_outage w (store_calls w)"
    and "\<not> store_outage w (Suc (store_calls w))"
    and "\<not> store_outage w (Suc (Suc (store_calls w)))"
    and "path_id ev' = Some k"
  shows "(let product = spread_productId reqBody k;
             ok = Returns \<lparr>statusCode = 200, headers = Some content_type_json,
                            body = JSON_stringify env (JObj product)\<rparr>;
             w0 = snd (part000_updateProduct env ev w);
             w1 = snd (part001_updateProduct env ev w)
         in fst (part000_updateProduct env ev w) = ok \<and>
            map_of (ProductsTable w0) k = Some product \<and>
            fst (part000_getProduct env ev' w0) = ok \<and>
            fst (part001_updateProduct env ev w) = ok \<and>
            map_of (ProductsTable w1) k = Some product \<and>
            fst (part001_getProduct env ev' w1) = ok \<and>
            map_of product ''name'' = map_of (own_props reqBody) ''name'' \<and>
            map_of product ''description'' = map_of (own_props reqBody) ''description'' \<and>
            map_of product ''price'' = map_of (own_props reqBody) ''price'' \<and>
            map_of product ''available'' = map_of (own_props reqBody) ''available'' \<and>
            map_of product ''productId'' = Some (JStr k))"
proof -
  let ?product = "spread_productId reqBody k"
  let ?ok = "Returns \<lparr>statusCode = 200, headers = Some content_type_json,
                        body = JSON_stringify env (JObj ?product)\<rparr>"
  let ?w' = "w\<lparr>store_calls := Suc (Suc (store_calls w)),
               ProductsTable := AList.update k ?product (ProductsTable w)\<rparr>"
  have exists: "fetchProductById env (path_id ev) w =
      (Returns old, w\<lparr>store_calls := Suc (store_calls w)\<rparr>)"
    using assms by (simp add: fetch_found)
  have parsed: "parse_body env ev = resolve reqBody"
    using assms by (simp add: parse_body_def)
  have accepted: "schema_validate env reqBody = resolve ()"
    using assms by (simp add: schema_validate_def)
  have put: "docClient_put ?product (w\<lparr>store_calls := Suc (store_calls w)\<rparr>) = (Returns (), ?w')"
    using assms by (simp add: put_stores spread_productId_id)
  have u0: "part000_updateProduct env ev w = (?ok, ?w')"
    using assms(1) exists parsed accepted put
    by (simp add: part000_updateProduct_def spread_path_id_def promise_defs Let_def)
  have u1: "part001_updateProduct env ev w = (?ok, ?w')"
    using assms(1) exists parsed put
    by (simp add: part001_updateProduct_def spread_path_id_def promise_defs Let_def)
  have stored: "map_of (ProductsTable ?w') k = Some ?product"
    by (simp add: update_conv')
  have found: "fetchProductById env (path_id ev') ?w' =
      (Returns ?product, ?w'\<lparr>store_calls := Suc (store_calls ?w')\<rparr>)"
    using assms stored by (simp add: fetch_found)
  have g0: "fst (part000_getProduct env ev' ?w') = ?ok"
    using found by (simp add: part000_getProduct_def promise_defs)
  have g1: "fst (part001_getProduct env ev' ?w') = ?ok"
    using found by (simp add: part001_getProduct_def promise_defs)
  show ?thesis
    using u0 u1 stored g0 g1
    by (simp add: Let_def spread_productId_id spread_productId_other)
qed

theorem update_existing_witness:
  "path_id (request_at ''p1'' (Some ink_text)) = Some ''p1'' \<and>
   map_of (ProductsTable stocked_world) ''p1'' = Some (spread_productId (JObj pen) ''p1'') \<and>
   JSON_parse demo_runtime (request_text (request_at ''p1'' (Some ink_text))) = Inr (JObj ink) \<and>
   yup_validate demo_runtime schema (JObj ink) False = Inr (JObj ink) \<and>
   \<not> store_outage stocked_world (store_calls stocked_world) \<and>
   \<not> store_outage stocked_world (Suc (store_calls stocked_world)) \<and>
   \<not> store_outage stocked_world (Suc (Suc (store_calls stocked_world))) \<and>
   path_id (request_at ''p1'' None) = Some ''p1'' \<and>
   fst (part000_updateProduct demo_runtime (request_at ''p1'' (Some ink_text)) stocked_world) =
     Returns \<lparr>statusCode = 200, headers = Some content_type_json,
              body = JSON_stringify demo_runtime (JObj (spread_productId (JObj ink) ''p1''))\<rparr> \<and>
   fst (part000_getProduct demo_runtime (request_at ''p1'' None)
         (snd (part000_updateProduct demo_runtime (request_at ''p1'' (Some ink_text))
                stocked_world))) =
     Returns \<lparr>statusCode = 200, headers = Some content_type_json,
              body = JSON_stringify demo_runtime (JObj (spread_productId (JObj ink) ''p1''))\<rparr> \<and>
   map_of (spread_productId (JObj ink) ''p1'') ''name'' = Some (JStr ''ink'') \<and>
   map_of (spread_productId (JObj ink) ''p1'') ''productId'' = Some (JStr ''p1'')"
  using update_existing [of "request_at ''p1'' (Some ink_text)" "''p1''" stocked_world
      "spread_productId (JObj pen) ''p1''" demo_runtime "JObj ink" "JObj ink"
      "request_at ''p1'' None"]
  by (simp add: demo_defs Let_def)

subsection \<open>Delete\<close>

text \<open>
  C8. When the path id has a record and the store answers, Delete (of \<^verbatim>\<open>part_000\<close> and
  of \<^verbatim>\<open>part_001\<close>) returns status 204 with an empty body and no headers, the id has no
  record afterwards, and a Get of that id then returns 404.
\<close>

theorem delete_existing:
  assumes "path_id ev = Some k"
    and "map_of (ProductsTable w) k = Some old"
    and "\<not> store_outage w (store_calls w)"
    and "\<not> store_outage w (Suc (store_calls w))"
    and "\<not> store_outage w (Suc (Suc (store_calls w)))"
    and "path_id ev' = Some k"
  shows \<open>(let gone = Returns \<lparr>statusCode = 204, headers = None, body = ''''\<rparr>;
              missing = Returns \<lparr>statusCode = 404, headers = Some content_type_json,
                                   body = ''{"error":"Product not found"}''\<rparr>;
              w0 = snd (part000_deleteProduct env ev w);
              w1 = snd (part001_deleteProduct env ev w)
          in fst (part000_deleteProduct env ev w) = gone \<and>
             ProductsTable w0 = AList.delete k (ProductsTable w) \<and>
             map_of (ProductsTable w0) k = None \<and>
             fst (part000_getProduct env ev' w0) = missing \<and>
             fst (part001_deleteProduct env ev w) = gone \<and>
             ProductsTable w1 = AList.delete k (ProductsTable w) \<and>
             map_of (ProductsTable w1) k = None \<and>
             fst (part001_getProduct env ev' w1) = missing)\<close>
proof -
  let ?gone = "Returns \<lparr>statusCode = 204, headers = None, body = ''''\<rparr>"
  let ?w' = "w\<lparr>store_calls := Suc (Suc (store_calls w)),
               ProductsTable := AList.delete k (ProductsTable w)\<rparr>"
  have exists: "fetchProductById env (path_id ev) w =
      (Returns old, w\<lparr>store_calls := Suc (store_calls w)\<rparr>)"
    using assms by (simp add: fetch_found)
  have deleted: "docClient_delete (path_id ev) (w\<lparr>store_calls := Suc (store_calls w)\<rparr>) =
      (Returns (), ?w')"
    using assms by (simp add: docClient_delete_def store_call_def Let_def)
  have d0: "part000_deleteProduct env ev w = (?gone, ?w')"
    using exists deleted by (simp add: part000_deleteProduct_def promise_defs)
  have d1: "part001_deleteProduct env ev w = (?gone, ?w')"
    using exists deleted by (simp add: part001_deleteProduct_def promise_defs)
  have absent: "map_of (ProductsTable ?w') k = None"
    by (simp add: delete_conv')
  have missing: "fetchProductById env (path_id ev') ?w' =
      (Throws (new_HttpError env 404 not_found), ?w'\<lparr>store_calls := Suc (store_calls ?w')\<rparr>)"
    using assms absent by (simp add: fetch_missing)
  have g0: "fst (part000_getProduct env ev' ?w') =
      Returns \<lparr>statusCode = 404, headers = Some content_type_json,
               body = JSON_stringify env not_found\<rparr>"
    using missing by (simp add: part000_getProduct_def new_HttpError_def promise_defs)
  have g1: "fst (part001_getProduct env ev' ?w') =
      Returns \<lparr>statusCode = 404, headers = Some content_type_json,
               body = JSON_stringify env not_found\<rparr>"
    using missing by (simp add: part001_getProduct_def new_HttpError_def promise_defs)
  show ?thesis
    using d0 d1 absent g0 g1 by (simp add: Let_def stringify_not_found)
qed

theorem delete_existing_witness:
  \<open>path_id (request_at ''p1'' None) = Some ''p1'' \<and>
   map_of (ProductsTable stocked_world) ''p1'' = Some (spread_productId (JObj pen) ''p1'') \<and>
   \<not> store_outage stocked_world (store_calls stocked_world) \<and>
   \<not> store_outage stocked_world (Suc (store_calls stocked_world)) \<and>
   \<not> store_outage stocked_world (Suc (Suc (store_calls stocked_world))) \<and>
   fst (part000_deleteProduct demo_runtime (request_at ''p1'' None) stocked_world) =
     Returns \<lparr>statusCode = 204, headers = None, body = ''''\<rparr> \<and>
   ProductsTable (snd (part000_deleteProduct demo_runtime (request_at ''p1'' None)
       stocked_world)) = [] \<and>
   fst (part000_getProduct demo_runtime (request_at ''p1'' None)
         (snd (part000_deleteProduct demo_runtime (request_at ''p1'' None) stocked_world))) =
     Returns \<lparr>statusCode = 404, headers = Some content_type_json,
              body = ''{"error":"Product not found"}''\<rparr> \<and>
   fst (part001_deleteProduct demo_runtime (request_at ''p1'' None) stocked_world) =
     Returns \<lparr>statusCode = 204, headers = None, body = ''''\<rparr>\<close>
  using delete_existing [of "request_at ''p1'' None" "''p1''" stocked_world
      "spread_productId (JObj pen) ''p1''" "request_at ''p1'' None" demo_runtime]
  by (simp add: demo_defs Let_def)

subsection \<open>Create: the generated id\<close>




subsection \<open>Properties beyond the schema\<close>



subsection \<open>Create, then Get\<close>

text \<open>
  In \<^verbatim>\<open>part_000\<close> and \<^verbatim>\<open>part_001\<close> the record that Create returns is the record it
  stores: a Get with the returned \<^verbatim>\<open>productId\<close> returns 200 and the same record.
\<close>

lemma create_then_get:
  assumes "JSON_parse env (request_text ev) = Inr reqBody"
    and "yup_validate env schema reqBody False = Inr v"
    and "\<not> store_outage w (store_calls w)"
    and "\<not> store_outage w (Suc (store_calls w))"
    and "path_id ev' = Some (uuid_source w (uuid_calls w))"
  shows "(let product = spread_productId reqBody (uuid_source w (uuid_calls w));
             ok = Returns \<lparr>statusCode = 200, headers = Some content_type_json,
                            body = JSON_stringify env (JObj product)\<rparr>
         in fst (part000_createProduct env ev w) = ok \<and>
            fst (part000_getProduct env ev' (snd (part000_createProduct env ev w))) = ok \<and>
            fst (part001_createProduct env ev w) = ok \<and>
            fst (part001_getProduct env ev' (snd (part001_createProduct env ev w))) = ok)"
  using assms
  by (simp add: part000_createProduct_def part001_createProduct_def part000_getProduct_def
      part001_getProduct_def parse_body_def schema_validate_def v4_def put_stores fetch_found
      spread_productId_id promise_defs Let_def update_conv')

text \<open>
  C1. In \<^verbatim>\<open>src/handlers.ts\<close> Create calls \<^verbatim>\<open>v4()\<close> twice: once for the record it
  returns, once for the item it puts. For the valid body \<open>pen_text\<close> on an empty table
  the response carries \<^verbatim>\<open>uuid-0\<close>, the table holds the record under \<^verbatim>\<open>uuid-1\<close>, and Get
  with the returned id answers 404 (the Get of \<^verbatim>\<open>src/handlers.ts\<close> and the one of
  \<^verbatim>\<open>part_000\<close> alike), where the round trip asks for 200 and the created record.
\<close>

theorem handlers_create_then_get:
  \<open>yup_validate demo_runtime schema (JObj pen) False = Inr (JObj pen) \<and>
   fst (handlers_createProduct demo_runtime (request pen_text) empty_world) =
     Returns \<lparr>statusCode = 200, headers = None,
       body = ''{"name":"pen","description":"blue","price":3,"available":true,"productId":"uuid-0"}''\<rparr> \<and>
   ProductsTable (snd (handlers_createProduct demo_runtime (request pen_text) empty_world)) =
     [(''uuid-1'', pen @ [(''productId'', JStr ''uuid-1'')])] \<and>
   fst (handlers_getProduct demo_runtime (request_at ''uuid-0'' None)
         (snd (handlers_createProduct demo_runtime (request pen_text) empty_world))) =
     Returns \<lparr>statusCode = 404, headers = None,
              body = ''{"error":"Product not found"}''\<rparr> \<and>
   fst (part000_getProduct demo_runtime (request_at ''uuid-0'' None)
         (snd (handlers_createProduct demo_runtime (request pen_text) empty_world))) =
     Returns \<lparr>statusCode = 404, headers = Some content_type_json,
              body = ''{"error":"Product not found"}''\<rparr>\<close>
  by (simp add: handlers_createProduct_def handlers_getProduct_def part000_getProduct_def
      fetchProductById_def new_HttpError_def stringify_not_found parse_body_def v4_def
      spread_productId_def store_defs promise_defs demo_defs Let_def
      QuoteJSONString_def escape_char_def)

subsection \<open>Create of a body that misses fields\<close>

text \<open>
  In \<^verbatim>\<open>part_000\<close>, a body the schema rejects gives status 400 and the body
  \<^verbatim>\<open>{"errors": [...]}\<close> with every error yup collected (\<^verbatim>\<open>abortEarly: false\<close>); nothing
  is stored and no id is drawn.
\<close>

lemma part000_create_invalid:
  assumes "JSON_parse env (request_text ev) = Inr reqBody"
    and "yup_validate env schema reqBody False = Inl errs"
  shows "part000_createProduct env ev w =
    (Returns \<lparr>statusCode = 400, headers = Some content_type_json,
              body = JSON_stringify env (JObj [(''errors'', JArr (map JStr errs))])\<rparr>, w)"
  using assms
  by (simp add: part000_createProduct_def parse_body_def schema_validate_def promise_defs)

text \<open>
  For the body \<^verbatim>\<open>{}\<close>, which misses all four fields, \<^verbatim>\<open>part_000\<close> with the validator
  of the spec's section 4.1 answers 400 and names the four fields.
\<close>

lemma part000_create_empty_object:
  \<open>part000_createProduct demo_runtime (request ''{}'') empty_world =
     (Returns \<lparr>statusCode = 400, headers = Some content_type_json,
               body = ''{"errors":["name","description","price","available"]}''\<rparr>,
      empty_world)\<close>
  by (simp add: part000_createProduct_def parse_body_def schema_validate_def promise_defs
      demo_defs Let_def QuoteJSONString_def escape_char_def)

text \<open>
  C3. \<^verbatim>\<open>part_001\<close> and \<^verbatim>\<open>src/handlers.ts\<close> have no validation step: for the body
  \<^verbatim>\<open>{}\<close>, which misses all four fields, their Create returns 200 and stores a record
  that has a \<^verbatim>\<open>productId\<close> only, where a 400 with the list of the four fields is
  asked for.
\<close>

theorem part001_create_unvalidated:
  \<open>JSON_parse demo_runtime (request_text (request ''{}'')) = Inr (JObj []) \<and>
   part001_createProduct demo_runtime (request ''{}'') empty_world =
     (Returns \<lparr>statusCode = 200, headers = Some content_type_json,
               body = ''{"productId":"uuid-0"}''\<rparr>,
      empty_world\<lparr>uuid_calls := 1, store_calls := 1,
        ProductsTable := [(''uuid-0'', [(''productId'', JStr ''uuid-0'')])]\<rparr>) \<and>
   handlers_createProduct demo_runtime (request ''{}'') empty_world =
     (Returns \<lparr>statusCode = 200, headers = None, body = ''{"productId":"uuid-0"}''\<rparr>,
      empty_world\<lparr>uuid_calls := 2, store_calls := 1,
        ProductsTable := [(''uuid-1'', [(''productId'', JStr ''uuid-1'')])]\<rparr>)\<close>
  by (simp add: part001_createProduct_def handlers_createProduct_def
      parse_body_def v4_def spread_productId_def store_defs promise_defs
      demo_defs Let_def QuoteJSONString_def escape_char_def)

subsection \<open>A body that is not JSON\<close>

text \<open>
  Update checks that the id exists before it parses the body: for an id with no record
  and a body that does not parse, Update of \<^verbatim>\<open>part_000\<close> answers 404, not 400.
\<close>

theorem update_missing_malformed:
  \<open>JSON_parse demo_runtime (request_text (request_at ''p2'' (Some ''{oops''))) =
     Inl ''Unexpected token'' \<and>
   map_of (ProductsTable stocked_world) ''p2'' = None \<and>
   fst (part000_updateProduct demo_runtime (request_at ''p2'' (Some ''{oops'')) stocked_world) =
     Returns \<lparr>statusCode = 404, headers = Some content_type_json,
              body = ''{"error":"Product not found"}''\<rparr>\<close>
  by (simp add: part000_updateProduct_def fetchProductById_def new_HttpError_def
      stringify_not_found store_defs promise_defs demo_defs Let_def)

text \<open>
  C4, as amended. In \<^verbatim>\<open>part_000\<close>, when \<^verbatim>\<open>JSON.parse\<close> throws a \<^verbatim>\<open>SyntaxError\<close> with
  message \<open>m\<close>: Create returns status 400 with the JSON body whose \<^verbatim>\<open>error\<close> is
  \<^verbatim>\<open>Invalid request body format: \<close> followed by \<open>m\<close>, and leaves the world as it was;
  Update does the same when the path id has a record and the store answers the existence
  check.
\<close>

theorem malformed_body:
  assumes "JSON_parse env (request_text ev) = Inl m"
  shows "(let bad = Returns \<lparr>statusCode = 400, headers = Some content_type_json,
                body = JSON_stringify env
                  (JObj [(''error'', JStr (''Invalid request body format: '' @ m))])\<rparr>
          in part000_createProduct env ev w = (bad, w) \<and>
             (path_id ev = Some k \<and> map_of (ProductsTable w) k = Some old \<and>
              \<not> store_outage w (store_calls w) \<longrightarrow>
              part000_updateProduct env ev w =
                (bad, w\<lparr>store_calls := Suc (store_calls w)\<rparr>)))"
  using assms
  by (simp add: part000_createProduct_def part000_updateProduct_def parse_body_def
      fetch_found promise_defs Let_def)

theorem malformed_body_witness:
  \<open>JSON_parse demo_runtime (request_text (request_at ''p1'' (Some ''{oops''))) =
     Inl ''Unexpected token'' \<and>
   path_id (request_at ''p1'' (Some ''{oops'')) = Some ''p1'' \<and>
   map_of (ProductsTable stocked_world) ''p1'' = Some (spread_productId (JObj pen) ''p1'') \<and>
   \<not> store_outage stocked_world (store_calls stocked_world) \<and>
   part000_createProduct demo_runtime (request_at ''p1'' (Some ''{oops'')) stocked_world =
     (Returns \<lparr>statusCode = 400, headers = Some content_type_json,
        body = ''{"error":"Invalid request body format: Unexpected token"}''\<rparr>,
      stocked_world) \<and>
   part000_updateProduct demo_runtime (request_at ''p1'' (Some ''{oops'')) stocked_world =
     (Returns \<lparr>statusCode = 400, headers = Some content_type_json,
        body = ''{"error":"Invalid request body format: Unexpected token"}''\<rparr>,
      stocked_world\<lparr>store_calls := Suc (store_calls stocked_world)\<rparr>)\<close>
  using malformed_body [of demo_runtime "request_at ''p1'' (Some ''{oops'')"
      "''Unexpected token''" stocked_world "''p1''" "spread_productId (JObj pen) ''p1''"]
  by (simp add: demo_defs Let_def QuoteJSONString_def escape_char_def)

text \<open>
  The other revisions have no branch for \<^verbatim>\<open>SyntaxError\<close>: in \<^verbatim>\<open>src/handlers.ts\<close> and
  \<^verbatim>\<open>part_001\<close> Create has no \<^verbatim>\<open>try\<close>, and \<^verbatim>\<open>handleError\<close> of \<^verbatim>\<open>part_001\<close> throws the
  error again, so it leaves the handler.
\<close>

lemma syntax_error_leaves_handler:
  assumes "JSON_parse env (request_text ev) = Inl m"
  shows "handlers_createProduct env ev w = (Throws (SyntaxError m), w) \<and>
         part001_createProduct env ev w = (Throws (SyntaxError m), w) \<and>
         (path_id ev = Some k \<and> map_of (ProductsTable w) k = Some old \<and>
          \<not> store_outage w (store_calls w) \<longrightarrow>
          part001_updateProduct env ev w =
            (Throws (SyntaxError m), w\<lparr>store_calls := Suc (store_calls w)\<rparr>))"
  using assms
  by (simp add: handlers_createProduct_def part001_createProduct_def
      part001_updateProduct_def parse_body_def fetch_found promise_defs)

end
